theory Spec2Isabelle
  imports Complex_Main
begin

section \<open>Values\<close>

text \<open>
  A JavaScript number is modelled as an exact rational, one of the two infinities, or
  NaN. Rounding and overflow of the 64-bit format are not modelled, and the sign of
  zero is not kept: \<open>Finite 0\<close> stands for both zeros.
\<close>

datatype number = Finite rat | PosInfinity | NegInfinity | NaN

text \<open>The operators \<open>*\<close> and \<open>/\<close> on numbers, with the IEEE rules for the special values.\<close>

fun js_mul :: "number \<Rightarrow> number \<Rightarrow> number" where
  "js_mul NaN y = NaN"
| "js_mul x NaN = NaN"
| "js_mul (Finite a) (Finite b) = Finite (a * b)"
| "js_mul (Finite a) PosInfinity =
     (if a = 0 then NaN else if 0 < a then PosInfinity else NegInfinity)"
| "js_mul (Finite a) NegInfinity =
     (if a = 0 then NaN else if 0 < a then NegInfinity else PosInfinity)"
| "js_mul PosInfinity (Finite b) =
     (if b = 0 then NaN else if 0 < b then PosInfinity else NegInfinity)"
| "js_mul NegInfinity (Finite b) =
     (if b = 0 then NaN else if 0 < b then NegInfinity else PosInfinity)"
| "js_mul PosInfinity PosInfinity = PosInfinity"
| "js_mul PosInfinity NegInfinity = NegInfinity"
| "js_mul NegInfinity PosInfinity = NegInfinity"
| "js_mul NegInfinity NegInfinity = PosInfinity"

fun js_div :: "number \<Rightarrow> number \<Rightarrow> number" where
  "js_div NaN y = NaN"
| "js_div x NaN = NaN"
| "js_div (Finite a) (Finite b) =
     (if b = 0 then (if a = 0 then NaN else if 0 < a then PosInfinity else NegInfinity)
      else Finite (a / b))"
| "js_div (Finite a) PosInfinity = Finite 0"
| "js_div (Finite a) NegInfinity = Finite 0"
| "js_div PosInfinity (Finite b) = (if 0 \<le> b then PosInfinity else NegInfinity)"
| "js_div NegInfinity (Finite b) = (if 0 \<le> b then NegInfinity else PosInfinity)"
| "js_div PosInfinity PosInfinity = NaN"
| "js_div PosInfinity NegInfinity = NaN"
| "js_div NegInfinity PosInfinity = NaN"
| "js_div NegInfinity NegInfinity = NaN"

text \<open>The relational operators: every comparison with NaN is false.\<close>

fun js_lt :: "number \<Rightarrow> number \<Rightarrow> bool" where
  "js_lt NaN y = False"
| "js_lt x NaN = False"
| "js_lt (Finite a) (Finite b) = (a < b)"
| "js_lt (Finite a) PosInfinity = True"
| "js_lt (Finite a) NegInfinity = False"
| "js_lt PosInfinity y = False"
| "js_lt NegInfinity (Finite b) = True"
| "js_lt NegInfinity PosInfinity = True"
| "js_lt NegInfinity NegInfinity = False"

definition js_gt :: "number \<Rightarrow> number \<Rightarrow> bool" where
  "js_gt x y = js_lt y x"

definition js_ge :: "number \<Rightarrow> number \<Rightarrow> bool" where
  "js_ge x y = (x \<noteq> NaN \<and> y \<noteq> NaN \<and> \<not> js_lt x y)"

text \<open>
  A numeric property of a pool holds a number, a string or \<open>null\<close>. The data model of
  the spec has numbers; the subgraph sends decimal strings; JSON has no text for NaN
  and the infinities, so a number that is not finite comes back from the cache as
  \<open>null\<close>. The runtime converts a string operand to the nearest number of the 64-bit
  format. That conversion is not computed here: a string field \<open>Str t n\<close> holds its
  text \<open>t\<close> together with the number \<open>n\<close> that the runtime converts the text to. The
  empty string converts to 0 and is the only string that is false as a condition.

  \<open>ToNumber\<close> is the conversion that the arithmetic and relational operators apply to
  an operand, \<open>truthy\<close> the conversion to a boolean of \<open>&&\<close>, \<open>!\<close> and \<open>if\<close>, and
  \<open>isNaN\<close> the global function of that name.
\<close>

datatype numfield = Null | Number number | Str string number

fun ToNumber :: "numfield \<Rightarrow> number" where
  "ToNumber Null = Finite 0"
| "ToNumber (Number n) = n"
| "ToNumber (Str t n) = (if t = [] then Finite 0 else n)"

fun truthy_number :: "number \<Rightarrow> bool" where
  "truthy_number (Finite a) = (a \<noteq> 0)"
| "truthy_number NaN = False"
| "truthy_number PosInfinity = True"
| "truthy_number NegInfinity = True"

fun truthy :: "numfield \<Rightarrow> bool" where
  "truthy Null = False"
| "truthy (Number n) = truthy_number n"
| "truthy (Str t n) = (t \<noteq> [])"

definition isNaN :: "numfield \<Rightarrow> bool" where
  "isNaN v = (ToNumber v = NaN)"

text \<open>The exceptions of the runtime, as values.\<close>

datatype error =
    TypeError string
  | ReferenceError string
  | RangeError string
  | SyntaxError string
  | SystemError string
  | Error string

section \<open>Data model\<close>

text \<open>
  The records that the subgraph query of graphqlQuery.js selects. The property \<open>id\<close>
  of a token and of a pool is written \<open>token_id\<close> and \<open>pool_id\<close>. The four properties
  that the orchestrator attaches to a pool before it caches it are the optional
  \<open>enrichment\<close>.
\<close>

record token =
  symbol :: string
  token_id :: string
  name :: string
  decimals :: numfield

record enrichment =
  token0Price :: numfield
  token1Price :: numfield
  apr :: numfield
  oneDayVolTVL :: numfield

record pool =
  pool_id :: string
  token0 :: token
  token1 :: token
  feeTier :: numfield
  liquidity :: numfield
  volumeUSD :: numfield
  txCount :: numfield
  totalValueLockedUSD :: numfield
  enriched :: "enrichment option"

text \<open>
  An element of a fetched page or of the cached array: a pool object or \<open>null\<close>
  (the orchestrator writes \<open>null\<close> for a pool that it could not price).
\<close>

datatype entry = NullEntry | Pool pool

section \<open>APR estimator\<close>

text \<open>
  Modelled from the spec: \<open>calculateAPR\<close> is imported by app.js from aprCalculator.js,
  which is not among the source files. The spec gives its computation: the fee tier
  divided by 1,000,000, times the 24h volume, divided by the liquidity, times 365 and
  times 100. The operands go through \<open>ToNumber\<close>, as operands of \<open>*\<close> and \<open>/\<close> do.
\<close>

definition calculateAPR :: "numfield \<Rightarrow> numfield \<Rightarrow> numfield \<Rightarrow> number" where
  "calculateAPR feeTier' volumeUSD' liquidity' =
     js_mul
       (js_mul
          (js_div
             (js_mul (js_div (ToNumber feeTier') (Finite 1000000)) (ToNumber volumeUSD'))
             (ToNumber liquidity'))
          (Finite 365))
       (Finite 100)"

section \<open>Significance filter\<close>

definition liquidityThreshold :: number where
  "liquidityThreshold = Finite 50000"

definition volumeThreshold :: number where
  "volumeThreshold = Finite 1000"

definition aprPercentageThreshold :: number where
  "aprPercentageThreshold = Finite (5 / 100)"

definition aprMaxValue :: number where
  "aprMaxValue = Finite 200"

text \<open>
  \<open>isPoolSignificant\<close> of app.js. Its first statement reads a property of its
  argument, which raises a TypeError when the argument is \<open>null\<close>.
\<close>

fun isPoolSignificant :: "entry \<Rightarrow> error + bool" where
  "isPoolSignificant NullEntry =
     Inl (TypeError ''Cannot read properties of null (reading totalValueLockedUSD)'')"
| "isPoolSignificant (Pool p) =
     (let totalValueLockedUSD' = totalValueLockedUSD p;
          dailyVolumeUSD = volumeUSD p;
          liquidity' = (if js_gt (ToNumber (liquidity p)) (Finite 0) then liquidity p
                        else Number (Finite 1));
          apr' = calculateAPR (feeTier p) dailyVolumeUSD liquidity'
      in Inr (truthy dailyVolumeUSD \<and>
              \<not> isNaN dailyVolumeUSD \<and>
              js_ge (ToNumber totalValueLockedUSD') liquidityThreshold \<and>
              js_ge (ToNumber dailyVolumeUSD) volumeThreshold \<and>
              js_ge apr' aprPercentageThreshold \<and>
              js_lt apr' aprMaxValue \<and>
              apr' \<noteq> PosInfinity))"

text \<open>
  The conditions of the filter as the spec words them, to be compared with
  \<open>isPoolSignificant\<close>, which uses none of the three definitions. A field is a finite
  number other than zero when the number that it is read as is one. The liquidity
  that the estimate is computed from is the liquidity of the pool when that is a
  positive number, and 1 in place of a liquidity that is not positive (zero,
  negative, NaN or \<open>null\<close>). The estimate is \<open>calculateAPR\<close> of the fee tier, the
  volume and that liquidity.
\<close>

definition finite_nonzero :: "numfield \<Rightarrow> bool" where
  "finite_nonzero v =
     (case ToNumber v of
        Finite q \<Rightarrow> q \<noteq> 0
      | PosInfinity \<Rightarrow> False
      | NegInfinity \<Rightarrow> False
      | NaN \<Rightarrow> False)"

definition spec_liquidity :: "numfield \<Rightarrow> numfield" where
  "spec_liquidity l =
     (case ToNumber l of
        Finite q \<Rightarrow> (if 0 < q then l else Number (Finite 1))
      | PosInfinity \<Rightarrow> l
      | NegInfinity \<Rightarrow> Number (Finite 1)
      | NaN \<Rightarrow> Number (Finite 1))"

definition spec_apr :: "pool \<Rightarrow> number" where
  "spec_apr p = calculateAPR (feeTier p) (volumeUSD p) (spec_liquidity (liquidity p))"

text \<open>The numbers that are not finite.\<close>

definition special :: "number \<Rightarrow> bool" where
  "special x = (x = NaN \<or> x = PosInfinity \<or> x = NegInfinity)"

section \<open>Module scope\<close>

text \<open>
  Every identifier that app.js binds at module level: its imports, its \<open>const\<close>
  declarations and its function declarations. app.js has \<open>import\<close> statements, so
  it is an ECMAScript module and its code is strict: a read of an identifier that is
  bound neither here nor among the globals of the runtime raises a ReferenceError,
  and so does an assignment to one. The runtime has no global \<open>isSignificantPool\<close>
  and no global \<open>env\<close>.
\<close>

definition module_scope :: "string list" where
  "module_scope =
     [''request'', ''getPoolsQuery'', ''fetchTokenPrices'', ''calculateAPR'', ''fs'',
      ''config'', ''path'', ''req_env'', ''UNISWAP_V3_SUBGRAPH_URL'',
      ''liquidityThreshold'', ''volumeThreshold'', ''aprPercentageThreshold'',
      ''aprMaxValue'', ''LIMIT'', ''CACHE_FILE'', ''formatBigNumber'',
      ''isPoolSignificant'', ''delay'', ''fetchAllPools'', ''saveToCache'',
      ''loadFromCache'', ''fetchPoolsPricesAndAPR'', ''args'', ''useCache'',
      ''showHelp'']"

text \<open>
  The bindings of \<open>module_scope\<close> that are functions from a pool to a boolean, and the
  call \<open>isSignificantPool(pool)\<close> that \<open>fetchAllPools\<close> and the orchestrator make:
  the identifier is looked up, and the call raises when nothing is bound to it.
\<close>

definition pool_functions :: "(string \<times> (entry \<Rightarrow> error + bool)) list" where
  "pool_functions = [(''isPoolSignificant'', isPoolSignificant)]"

definition isSignificantPool :: "entry \<Rightarrow> error + bool" where
  "isSignificantPool pool =
     (case map_of pool_functions ''isSignificantPool'' of
        None \<Rightarrow> Inl (ReferenceError ''isSignificantPool is not defined'')
      | Some f \<Rightarrow> f pool)"

section \<open>Pool fetcher\<close>

text \<open>
  \<open>getPoolsQuery\<close> of graphqlQuery.js builds the text of a query from four values;
  the model keeps the four values.
\<close>

record query =
  first :: nat
  id_gt :: string
  volumeUSD_gte :: number
  totalValueLockedUSD_gte :: number

definition getPoolsQuery :: "nat \<Rightarrow> string \<Rightarrow> number \<Rightarrow> number \<Rightarrow> query" where
  "getPoolsQuery batchSize' lastPoolId' liquidityThreshold' volumeThreshold' =
     \<lparr>first = batchSize', id_gt = lastPoolId', volumeUSD_gte = volumeThreshold',
      totalValueLockedUSD_gte = liquidityThreshold'\<rparr>"

text \<open>
  The subgraph is outside the program: \<open>svc n q\<close> is what the \<open>n\<close>-th call of
  \<open>request\<close> in a pass (counted from 0) does with the query \<open>q\<close>, raise an exception
  or return \<open>data.pools\<close>.
\<close>

type_synonym service = "nat \<Rightarrow> query \<Rightarrow> error + entry list"

definition LIMIT :: nat where
  "LIMIT = 100000"

definition batchSize :: nat where
  "batchSize = 50"

text \<open>
  The local variables of \<open>fetchAllPools\<close>. The set of identifiers is kept as the list
  of its elements in insertion order.
\<close>

record fetch_state =
  allPools :: "entry list"
  lastPoolId :: string
  fetchMore :: bool
  significantPoolsSet :: "string list"
  significantPools :: "entry list"

definition initial_state :: fetch_state where
  "initial_state =
     \<lparr>allPools = [], lastPoolId = [], fetchMore = True, significantPoolsSet = [],
      significantPools = []\<rparr>"

text \<open>
  The \<open>for\<close> loop over the pools of one page. The result is the exception that ended
  the loop, if one was raised, and the variables as the loop left them. The first
  argument is what the call \<open>isSignificantPool(pool)\<close> does; \<open>pool.id\<close> raises a
  TypeError on \<open>null\<close>.
\<close>

fun for_pools ::
  "(entry \<Rightarrow> error + bool) \<Rightarrow> nat \<Rightarrow> entry list \<Rightarrow> fetch_state \<Rightarrow> error option \<times> fetch_state"
where
  "for_pools isSignificant limit [] s = (None, s)"
| "for_pools isSignificant limit (pool # rest) s =
     (let s1 = s\<lparr>allPools := allPools s @ [pool]\<rparr> in
      case pool of
        NullEntry \<Rightarrow> (Some (TypeError ''Cannot read properties of null (reading id)''), s1)
      | Pool p \<Rightarrow>
          (let s2 = s1\<lparr>lastPoolId := pool_id p\<rparr> in
           case isSignificant pool of
             Inl e \<Rightarrow> (Some e, s2)
           | Inr significant \<Rightarrow>
               (let s3 =
                  (if significant \<and> pool_id p \<notin> set (significantPoolsSet s2)
                   then s2\<lparr>significantPoolsSet := significantPoolsSet s2 @ [pool_id p],
                           significantPools := significantPools s2 @ [pool]\<rparr>
                   else s2)
                in if limit \<le> length (allPools s3) then (None, s3\<lparr>fetchMore := False\<rparr>)
                   else for_pools isSignificant limit rest s3)))"

text \<open>One pass through the body of the \<open>while\<close> loop: steps 1 to 5 of the source.\<close>

definition iteration ::
  "(entry \<Rightarrow> error + bool) \<Rightarrow> service \<Rightarrow> nat \<Rightarrow> nat \<Rightarrow> fetch_state \<Rightarrow> error option \<times> fetch_state"
where
  "iteration isSignificant svc limit n s =
     (let q = getPoolsQuery batchSize (lastPoolId s) liquidityThreshold volumeThreshold in
      case svc n q of
        Inl e \<Rightarrow> (Some e, s)
      | Inr pools \<Rightarrow>
          (case for_pools isSignificant limit pools s of
             (Some e, s1) \<Rightarrow> (Some e, s1)
           | (None, s1) \<Rightarrow>
               (None, if length pools < batchSize then s1\<lparr>fetchMore := False\<rparr> else s1)))"

text \<open>
  The \<open>while\<close> loop. The result is the exception that left the loop (if any), the
  number of requests sent, and the variables at that point.
\<close>

function while_loop ::
  "(entry \<Rightarrow> error + bool) \<Rightarrow> service \<Rightarrow> nat \<Rightarrow> nat \<Rightarrow> fetch_state
     \<Rightarrow> error option \<times> nat \<times> fetch_state"
where
  "while_loop isSignificant svc limit n s =
     (if fetchMore s \<and> length (allPools s) < limit then
        (case iteration isSignificant svc limit n s of
           (Some e, s1) \<Rightarrow> (Some e, Suc n, s1)
         | (None, s1) \<Rightarrow> while_loop isSignificant svc limit (Suc n) s1)
      else (None, n, s))"
  by pat_completeness auto
termination
proof (relation "measure (\<lambda>(isSignificant, svc, limit, n, s).
    if fetchMore s then Suc (limit - length (allPools s)) else 0)")
  show "wf (measure (\<lambda>(isSignificant, svc, limit, n, s).
    if fetchMore s then Suc (limit - length (allPools s)) else 0))"
    by simp
next
  fix isSignificant :: "entry \<Rightarrow> error + bool" and svc :: service and limit n :: nat
    and s s1 :: fetch_state and o1 :: "error option"
  assume cond: "fetchMore s \<and> length (allPools s) < limit"
    and pair: "(o1, s1) = iteration isSignificant svc limit n s"
    and none: "o1 = None"
  have step: "\<exists>u. length (allPools u) = Suc (length (allPools t)) \<and>
        (t' = u\<lparr>fetchMore := False\<rparr> \<or> for_pools isSignificant limit ps u = (out, t'))"
    if "for_pools isSignificant limit (a # ps) t = (out, t')" and "out = None"
    for a ps t out t'
  proof (cases a)
    case NullEntry
    with that show ?thesis by (simp add: Let_def)
  next
    case (Pool p)
    show ?thesis
    proof (cases "isSignificant (Pool p)")
      case (Inl e)
      with Pool that show ?thesis by (simp add: Let_def)
    next
      case (Inr b)
      define u where "u =
        (if b \<and> pool_id p \<notin> set (significantPoolsSet t)
         then t\<lparr>allPools := allPools t @ [a], lastPoolId := pool_id p,
                 significantPoolsSet := significantPoolsSet t @ [pool_id p],
                 significantPools := significantPools t @ [a]\<rparr>
         else t\<lparr>allPools := allPools t @ [a], lastPoolId := pool_id p\<rparr>)"
      have len: "length (allPools u) = Suc (length (allPools t))"
        by (simp add: u_def)
      have "for_pools isSignificant limit (a # ps) t =
          (if limit \<le> length (allPools u) then (None, u\<lparr>fetchMore := False\<rparr>)
           else for_pools isSignificant limit ps u)"
        using Pool Inr by (simp add: Let_def u_def)
      with that have "t' = u\<lparr>fetchMore := False\<rparr> \<or> for_pools isSignificant limit ps u = (out, t')"
        by (simp split: if_splits)
      with len show ?thesis by blast
    qed
  qed
  have mono: "length (allPools t) \<le> length (allPools t')"
    if "for_pools isSignificant limit ps t = (None, t')" for ps t t'
    using that
  proof (induction ps arbitrary: t)
    case Nil
    then show ?case by simp
  next
    case (Cons a ps)
    from step [OF Cons.prems refl] obtain u
      where len: "length (allPools u) = Suc (length (allPools t))"
        and alt: "t' = u\<lparr>fetchMore := False\<rparr> \<or> for_pools isSignificant limit ps u = (None, t')"
      by blast
    from alt show ?case
    proof
      assume "t' = u\<lparr>fetchMore := False\<rparr>"
      with len show ?thesis by simp
    next
      assume "for_pools isSignificant limit ps u = (None, t')"
      from Cons.IH [OF this] len show ?thesis by simp
    qed
  qed
  from pair none have it: "iteration isSignificant svc limit n s = (None, s1)"
    by simp
  show "((isSignificant, svc, limit, Suc n, s1), (isSignificant, svc, limit, n, s))
      \<in> measure (\<lambda>(isSignificant, svc, limit, n, s).
          if fetchMore s then Suc (limit - length (allPools s)) else 0)"
  proof (cases "fetchMore s1")
    case False
    with cond show ?thesis by simp
  next
    case True
    obtain ps where svc: "svc n (getPoolsQuery batchSize (lastPoolId s) liquidityThreshold
        volumeThreshold) = Inr ps"
      using it by (cases "svc n (getPoolsQuery batchSize (lastPoolId s) liquidityThreshold
        volumeThreshold)") (simp_all add: iteration_def Let_def)
    obtain o2 t' where fp: "for_pools isSignificant limit ps s = (o2, t')"
      by (cases "for_pools isSignificant limit ps s")
    from it svc fp have o2: "o2 = None"
      and s1: "s1 = (if length ps < batchSize then t'\<lparr>fetchMore := False\<rparr> else t')"
      by (cases o2; simp add: iteration_def Let_def)+
    from True s1 have big: "\<not> length ps < batchSize" and eq: "s1 = t'"
      by (auto split: if_splits)
    from big obtain a qs where ps: "ps = a # qs"
      by (cases ps) (auto simp: batchSize_def)
    from step [OF fp [unfolded ps] o2] obtain u
      where len: "length (allPools u) = Suc (length (allPools s))"
        and alt: "t' = u\<lparr>fetchMore := False\<rparr> \<or> for_pools isSignificant limit qs u = (o2, t')"
      by blast
    from alt True eq have "for_pools isSignificant limit qs u = (None, t')"
      using o2 by auto
    from mono [OF this] len eq have "length (allPools s) < length (allPools s1)"
      by simp
    with cond True show ?thesis by (auto intro: diff_less_mono2)
  qed
qed

text \<open>
  \<open>fetchAllPools\<close>: the loop runs inside \<open>try\<close>; the \<open>catch\<close> clause logs the
  exception, and the function returns \<open>significantPools\<close> on both paths. The delay
  after each page has no effect on the result and is left out. The first argument is
  what the identifier \<open>isSignificantPool\<close> does at the call in the loop: the program is
  \<open>fetchAllPools isSignificantPool\<close>.
\<close>

definition fetchAllPools ::
  "(entry \<Rightarrow> error + bool) \<Rightarrow> service \<Rightarrow> nat \<Rightarrow> error + entry list"
where
  "fetchAllPools isSignificant svc limit =
     (case while_loop isSignificant svc limit 0 initial_state of
        (Some e, n, s) \<Rightarrow> Inr (significantPools s)
      | (None, n, s) \<Rightarrow> Inr (significantPools s))"



section \<open>Decimal strings\<close>

definition digit :: "nat \<Rightarrow> char" where
  "digit d = ''0123456789'' ! d"

fun decimal :: "nat \<Rightarrow> string" where
  "decimal n = (if n < 10 then [digit n] else decimal (n div 10) @ [digit (n mod 10)])"

section \<open>Startup configuration check\<close>

definition req_env :: "string list" where
  "req_env = [''UNISWAP_V3_SUBGRAPH_URL'', ''COINGECKO_API_URL'', ''CACHE_FILENAME'']"

text \<open>
  \<open>for (env in req_env)\<close> enumerates the property keys of the array, which are its
  indices as decimal strings, and assigns each to the identifier \<open>env\<close>.
\<close>

definition for_in_keys :: "'a list \<Rightarrow> string list" where
  "for_in_keys xs = map decimal [0..<length xs]"

text \<open>
  The loop of lines 14 to 18 over the keys still to visit. \<open>process_env\<close> is the
  environment of the process. In strict code the assignment to an identifier that is
  not bound raises a ReferenceError; in sloppy code it would create a global variable.
  An environment variable that is absent reads as \<open>undefined\<close> and one that is set to
  the empty string reads as the empty string: \<open>!\<close> is true of both.
\<close>

fun check_env :: "bool \<Rightarrow> (string \<Rightarrow> string option) \<Rightarrow> string list \<Rightarrow> error + unit" where
  "check_env strict process_env [] = Inr ()"
| "check_env strict process_env (env # rest) =
     (if strict \<and> ''env'' \<notin> set module_scope then Inl (ReferenceError ''env is not defined'')
      else if (case process_env env of None \<Rightarrow> True | Some v \<Rightarrow> v = [])
      then Inl (Error (''Missing required environment variable: '' @ env))
      else check_env strict process_env rest)"

text \<open>The check as the module runs it: module code is strict.\<close>

definition startup_check :: "(string \<Rightarrow> string option) \<Rightarrow> error + unit" where
  "startup_check process_env = check_env True process_env (for_in_keys req_env)"

section \<open>Cache store\<close>

text \<open>
  What \<open>JSON.parse\<close> returns for a cache file: \<open>null\<close> or an array of entries. The text
  of a file is either a JSON text, identified with the value that it denotes (the
  layout of the text and the digits of its numbers are not modelled), or a text that
  \<open>JSON.parse\<close> rejects. JSON texts that denote other values are outside the model.
\<close>

datatype cached = NullValue | Entries "entry list"

datatype content = Json cached | Malformed string

text \<open>
  \<open>JSON.stringify\<close> writes a number that is not finite as \<open>null\<close>; everything else in
  a pool record, a string included, has a JSON text of its own.
\<close>

fun json_number :: "numfield \<Rightarrow> numfield" where
  "json_number (Number (Finite q)) = Number (Finite q)"
| "json_number (Str t n) = Str t n"
| "json_number v = Null"

definition json_token :: "token \<Rightarrow> token" where
  "json_token t = t\<lparr>decimals := json_number (decimals t)\<rparr>"

definition json_enrichment :: "enrichment \<Rightarrow> enrichment" where
  "json_enrichment e =
     \<lparr>token0Price = json_number (token0Price e), token1Price = json_number (token1Price e),
      apr = json_number (apr e), oneDayVolTVL = json_number (oneDayVolTVL e)\<rparr>"

definition json_pool :: "pool \<Rightarrow> pool" where
  "json_pool p =
     \<lparr>pool_id = pool_id p, token0 = json_token (token0 p), token1 = json_token (token1 p),
      feeTier = json_number (feeTier p), liquidity = json_number (liquidity p),
      volumeUSD = json_number (volumeUSD p), txCount = json_number (txCount p),
      totalValueLockedUSD = json_number (totalValueLockedUSD p),
      enriched = map_option json_enrichment (enriched p)\<rparr>"

fun json_entry :: "entry \<Rightarrow> entry" where
  "json_entry NullEntry = NullEntry"
| "json_entry (Pool p) = Pool (json_pool p)"

definition JSON_stringify :: "entry list \<Rightarrow> content" where
  "JSON_stringify pools = Json (Entries (map json_entry pools))"

fun JSON_parse :: "content \<Rightarrow> error + cached" where
  "JSON_parse (Json v) = Inr v"
| "JSON_parse (Malformed t) = Inl (SyntaxError ''Unexpected token in JSON'')"

text \<open>
  A field is representable when it is \<open>null\<close>, a string or a finite number, and an
  entry when all its numeric fields are.
\<close>

fun representable :: "numfield \<Rightarrow> bool" where
  "representable Null = True"
| "representable (Str t n) = True"
| "representable (Number (Finite q)) = True"
| "representable (Number n) = False"

definition representable_enrichment :: "enrichment \<Rightarrow> bool" where
  "representable_enrichment e =
     (representable (token0Price e) \<and> representable (token1Price e) \<and>
      representable (apr e) \<and> representable (oneDayVolTVL e))"

definition representable_pool :: "pool \<Rightarrow> bool" where
  "representable_pool p =
     (representable (decimals (token0 p)) \<and> representable (decimals (token1 p)) \<and>
      representable (feeTier p) \<and> representable (liquidity p) \<and>
      representable (volumeUSD p) \<and> representable (txCount p) \<and>
      representable (totalValueLockedUSD p) \<and>
      (case enriched p of None \<Rightarrow> True | Some e \<Rightarrow> representable_enrichment e))"

fun representable_entry :: "entry \<Rightarrow> bool" where
  "representable_entry NullEntry = True"
| "representable_entry (Pool p) = representable_pool p"

text \<open>
  The file system: a path names a file with its text, a directory, or nothing.
  Reading a path that is a directory or names nothing raises, and so does writing to a
  path that is a directory.
\<close>

datatype node = File content | Directory

type_synonym filesystem = "string \<Rightarrow> node option"

definition existsSync :: "filesystem \<Rightarrow> string \<Rightarrow> bool" where
  "existsSync fs path = (fs path \<noteq> None)"

definition readFileSync :: "filesystem \<Rightarrow> string \<Rightarrow> error + content" where
  "readFileSync fs path =
     (case fs path of
        None \<Rightarrow> Inl (SystemError ''ENOENT'')
      | Some Directory \<Rightarrow> Inl (SystemError ''EISDIR'')
      | Some (File c) \<Rightarrow> Inr c)"

definition writeFileSync :: "filesystem \<Rightarrow> string \<Rightarrow> content \<Rightarrow> error + filesystem" where
  "writeFileSync fs path c =
     (case fs path of
        Some Directory \<Rightarrow> Inl (SystemError ''EISDIR'')
      | _ \<Rightarrow> Inr (fs(path \<mapsto> File c)))"

text \<open>
  \<open>saveToCache\<close> and \<open>loadFromCache\<close>, with the path of the cache file as an argument.
  Each runs its body inside \<open>try\<close>; its \<open>catch\<close> clause logs the exception and, in
  \<open>loadFromCache\<close>, returns \<open>null\<close>.
\<close>

definition saveToCache :: "filesystem \<Rightarrow> string \<Rightarrow> entry list \<Rightarrow> error + filesystem" where
  "saveToCache fs cache_file pools =
     (case writeFileSync fs cache_file (JSON_stringify pools) of
        Inr fs' \<Rightarrow> Inr fs'
      | Inl e \<Rightarrow> Inr fs)"

definition loadFromCache :: "filesystem \<Rightarrow> string \<Rightarrow> error + cached" where
  "loadFromCache fs cache_file =
     (case (if existsSync fs cache_file then
              (case readFileSync fs cache_file of
                 Inl e \<Rightarrow> Inl e
               | Inr data \<Rightarrow> JSON_parse data)
            else Inr NullValue) of
        Inr v \<Rightarrow> Inr v
      | Inl e \<Rightarrow> Inr NullValue)"

section \<open>Filter on load\<close>

text \<open>
  \<open>Array.prototype.filter\<close> with a callback that may raise, and the step of the
  orchestrator that applies it to the cached array (line 189).
\<close>

fun js_filter :: "('a \<Rightarrow> error + bool) \<Rightarrow> 'a list \<Rightarrow> error + 'a list" where
  "js_filter f [] = Inr []"
| "js_filter f (x # xs) =
     (case f x of
        Inl e \<Rightarrow> Inl e
      | Inr keep \<Rightarrow>
          (case js_filter f xs of
             Inl e \<Rightarrow> Inl e
           | Inr ys \<Rightarrow> Inr (if keep then x # ys else ys)))"

definition filter_on_load :: "(entry \<Rightarrow> error + bool) \<Rightarrow> entry list \<Rightarrow> error + entry list" where
  "filter_on_load isSignificant cachedPools = js_filter (\<lambda>pool. isSignificant pool) cachedPools"

section \<open>Number formatting\<close>

text \<open>
  \<open>Number.prototype.toFixed\<close> on a finite number below \<open>10^21\<close> in magnitude: the
  nearest multiple of \<open>10^-f\<close> (the larger of two nearest ones), printed with \<open>f\<close>
  decimals. The exponent form that the runtime prints for larger numbers is not
  modelled.
\<close>

definition fixed_digits :: "rat \<Rightarrow> nat \<Rightarrow> string" where
  "fixed_digits q f =
     (let n = nat \<lfloor>\<bar>q\<bar> * 10 ^ f + 1 / 2\<rfloor>;
          m = decimal n;
          m' = (if f = 0 then m
                else (let z = replicate (f + 1 - length m) (CHR ''0'') @ m;
                          k = length z
                      in take (k - f) z @ ''.'' @ drop (k - f) z))
      in (if q < 0 then ''-'' else []) @ m')"

fun toFixed :: "number \<Rightarrow> nat \<Rightarrow> error + string" where
  "toFixed x f =
     (if 100 < f then Inl (RangeError ''toFixed() digits argument must be between 0 and 100'')
      else (case x of
              NaN \<Rightarrow> Inr ''NaN''
            | PosInfinity \<Rightarrow> Inr ''Infinity''
            | NegInfinity \<Rightarrow> Inr ''-Infinity''
            | Finite q \<Rightarrow> Inr (fixed_digits q f)))"

text \<open>
  \<open>Math.abs\<close>, and \<open>ToInt32\<close>, the conversion that the operator \<open>|\<close> applies to its
  operands: NaN and the infinities become 0, a finite number is truncated towards
  zero and wrapped into the signed 32-bit range. \<open>x | 0\<close> is \<open>ToInt32\<close> of \<open>x\<close>.
\<close>

fun js_abs :: "number \<Rightarrow> number" where
  "js_abs (Finite q) = Finite \<bar>q\<bar>"
| "js_abs PosInfinity = PosInfinity"
| "js_abs NegInfinity = PosInfinity"
| "js_abs NaN = NaN"

fun ToInt32 :: "number \<Rightarrow> int" where
  "ToInt32 (Finite q) =
     (let k = (if 0 \<le> q then \<lfloor>q\<rfloor> else - \<lfloor>- q\<rfloor>);
          m = k mod 2 ^ 32
      in if 2 ^ 31 \<le> m then m - 2 ^ 32 else m)"
| "ToInt32 x = 0"

definition suffixes :: "string list" where
  "suffixes = [[], ''K'', ''M'', ''B'', ''T'', ''P'', ''E'']"

text \<open>
  \<open>formatBigNumber\<close> of app.js. The language leaves the precision of \<open>Math.log10\<close> to
  the runtime, so the function of the runtime is the first argument of the model.
  An index outside \<open>suffixes\<close> reads as \<open>undefined\<close>, which \<open>+\<close> appends as that word.
\<close>

definition formatBigNumber :: "(number \<Rightarrow> number) \<Rightarrow> number \<Rightarrow> nat \<Rightarrow> error + string" where
  "formatBigNumber Math_log10 number' decimals' =
     (if \<not> truthy_number number' \<or> isNaN (Number number') then Inr ''N/A''
      else
        (let tier = ToInt32 (js_div (Math_log10 (js_abs number')) (Finite 3)) in
         if tier = 0 then toFixed number' decimals'
         else
           (let suffix = (if 0 \<le> tier \<and> nat tier < length suffixes then suffixes ! nat tier
                          else ''undefined'');
                scale = (if 0 \<le> tier then Finite (10 ^ (nat tier * 3))
                         else Finite (1 / 10 ^ (nat (- tier) * 3)));
                scaledNumber = js_div number' scale
            in (case toFixed scaledNumber decimals' of
                  Inl e \<Rightarrow> Inl e
                | Inr t \<Rightarrow> Inr (t @ suffix)))))"

section \<open>Example data\<close>

definition weth :: token where
  "weth = \<lparr>symbol = ''WETH'', token_id = ''0xc02a'', name = ''Wrapped Ether'',
           decimals = Number (Finite 18)\<rparr>"

definition usdc :: token where
  "usdc = \<lparr>symbol = ''USDC'', token_id = ''0xa0b8'', name = ''USD Coin'',
           decimals = Number (Finite 6)\<rparr>"

text \<open>
  Four pools: \<open>good_pool\<close> has an APR of 54.75 and a total value locked of exactly
  50,000; \<open>small_pool\<close> differs from it in a total value locked of 49,999.99;
  \<open>hot_pool\<close> has an APR of exactly 200 and \<open>warm_pool\<close> one of 199.9995.
\<close>

definition good_pool :: pool where
  "good_pool =
     \<lparr>pool_id = ''0x01'', token0 = usdc, token1 = weth, feeTier = Number (Finite 3000),
      liquidity = Number (Finite 2000000), volumeUSD = Number (Finite 1000000),
      txCount = Number (Finite 10), totalValueLockedUSD = Number (Finite 50000),
      enriched = None\<rparr>"

definition small_pool :: pool where
  "small_pool =
     good_pool\<lparr>pool_id := ''0x02'', totalValueLockedUSD := Number (Finite (4999999 / 100))\<rparr>"

definition hot_pool :: pool where
  "hot_pool =
     good_pool\<lparr>pool_id := ''0x03'', liquidity := Number (Finite 219000),
               volumeUSD := Number (Finite 400000)\<rparr>"

definition warm_pool :: pool where
  "warm_pool = hot_pool\<lparr>pool_id := ''0x04'', volumeUSD := Number (Finite 399999)\<rparr>"

text \<open>
  The good pool as the subgraph sends it, with strings; the runtime converts the text
  of its total value locked to 50,000.
\<close>

definition string_pool :: pool where
  "string_pool =
     good_pool\<lparr>pool_id := ''0x05'', feeTier := Str ''3000'' (Finite 3000),
               liquidity := Str ''2000000'' (Finite 2000000),
               volumeUSD := Str ''1000000'' (Finite 1000000),
               totalValueLockedUSD := Str ''49999.999999999999999'' (Finite 50000)\<rparr>"

definition one_page :: service where
  "one_page n q = Inr [Pool small_pool, Pool good_pool, Pool hot_pool]"

text \<open>
  Two pages: a full page of fifty pools that ends with \<open>good_pool\<close>, and a page that
  holds \<open>good_pool\<close> again.
\<close>

definition two_pages :: service where
  "two_pages n q =
     (if n = 0 then Inr (replicate 49 (Pool small_pool) @ [Pool good_pool])
      else Inr [Pool good_pool, Pool hot_pool])"

text \<open>A page with a pool and a \<open>null\<close>: reading \<open>id\<close> of the second element raises.\<close>

definition broken_page :: service where
  "broken_page n q = Inr [Pool good_pool, NullEntry, Pool good_pool]"

definition full_env :: "string \<Rightarrow> string option" where
  "full_env =
     [''UNISWAP_V3_SUBGRAPH_URL'' \<mapsto> ''https://subgraph.example/v3'',
      ''COINGECKO_API_URL'' \<mapsto> ''https://prices.example/api'',
      ''CACHE_FILENAME'' \<mapsto> ''cache.json'']"

text \<open>The identifiers of the pools in a list of entries.\<close>

fun ids :: "entry list \<Rightarrow> string list" where
  "ids [] = []"
| "ids (NullEntry # xs) = ids xs"
| "ids (Pool p # xs) = pool_id p # ids xs"


text \<open>A pool as the orchestrator caches it after pricing, and a file system with an older cache.\<close>

definition priced_pool :: pool where
  "priced_pool =
     good_pool\<lparr>enriched := Some \<lparr>token0Price = Number (Finite 1),
                                   token1Price = Number (Finite 2500),
                                   apr = Number (Finite (219 / 4)),
                                   oneDayVolTVL = Number (Finite 2000)\<rparr>\<rparr>"

definition old_cache :: filesystem where
  "old_cache = [''cache.json'' \<mapsto> File (Json (Entries [Pool hot_pool]))]"

text \<open>
  The invariant of the loop on the two collections of significant pools: the set
  holds the identifiers of the pools of the array, each once.
\<close>

definition dedup_inv :: "fetch_state \<Rightarrow> bool" where
  "dedup_inv s =
     (ids (significantPools s) = significantPoolsSet s \<and> distinct (significantPoolsSet s))"

section \<open>Properties of the APR estimator and of the filter\<close>

lemmas thresholds =
  liquidityThreshold_def volumeThreshold_def aprPercentageThreshold_def aprMaxValue_def

declare while_loop.simps [simp del]

text \<open>
  C2: for every fee tier \<open>F\<close>, volume \<open>V \<ge> 0\<close> and liquidity \<open>L > 0\<close> the APR
  estimator returns \<open>(F / 1,000,000 * V / L) * 365 * 100\<close>.
\<close>

theorem calculateAPR_formula:
  "0 \<le> V \<Longrightarrow> 0 < L \<Longrightarrow>
   calculateAPR (Number (Finite F)) (Number (Finite V)) (Number (Finite L)) =
     Finite ((F / 1000000 * V / L) * 365 * 100)"
  by (simp add: calculateAPR_def)

theorem calculateAPR_formula_witness:
  "(0::rat) \<le> 1000000 \<and> (0::rat) < 2000000 \<and>
   calculateAPR (Number (Finite 3000)) (Number (Finite 1000000)) (Number (Finite 2000000)) =
     Finite (219 / 4)"
  using calculateAPR_formula [of 1000000 2000000 3000] by simp

text \<open>
  The liquidity that \<open>isPoolSignificant\<close> passes to the estimator (line 65) is the
  liquidity of the spec, so the estimate of the code is the estimate of the spec.
\<close>

lemma liquidity_substitution:
  "(if js_gt (ToNumber l) (Finite 0) then l else Number (Finite 1)) = spec_liquidity l"
  by (cases "ToNumber l") (simp_all add: spec_liquidity_def js_gt_def)

lemma isPoolSignificant_Pool:
  "isPoolSignificant (Pool p) =
     Inr (truthy (volumeUSD p) \<and>
          \<not> isNaN (volumeUSD p) \<and>
          js_ge (ToNumber (totalValueLockedUSD p)) liquidityThreshold \<and>
          js_ge (ToNumber (volumeUSD p)) volumeThreshold \<and>
          js_ge (spec_apr p) aprPercentageThreshold \<and>
          js_lt (spec_apr p) aprMaxValue \<and>
          spec_apr p \<noteq> PosInfinity)"
  unfolding spec_apr_def liquidity_substitution [symmetric] by (simp add: Let_def)

lemma spec_liquidity_positive: "js_lt (Finite 0) (ToNumber (spec_liquidity l))"
  by (cases "ToNumber l") (simp_all add: spec_liquidity_def)

lemma truthy_of_ge: "js_ge (ToNumber v) (Finite c) \<Longrightarrow> 0 < c \<Longrightarrow> truthy v"
proof (cases v)
  case Null
  assume "js_ge (ToNumber v) (Finite c)" "0 < c"
  with Null show ?thesis by (simp add: js_ge_def)
next
  case (Number n)
  assume "js_ge (ToNumber v) (Finite c)" "0 < c"
  with Number show ?thesis by (cases n) (auto simp: js_ge_def)
next
  case (Str t n)
  assume "js_ge (ToNumber v) (Finite c)" "0 < c"
  with Str show ?thesis by (auto simp: js_ge_def split: if_splits)
qed

text \<open>
  With an infinite volume the estimate is an infinity or NaN, whatever the fee tier
  and the liquidity are.
\<close>

lemma special_mul_inf: "special (js_mul a PosInfinity)"
  by (cases a) (simp_all add: special_def)

lemma special_div_pos: "special x \<Longrightarrow> js_lt (Finite 0) y \<Longrightarrow> special (js_div x y)"
  by (cases y) (auto simp: special_def)

lemma special_mul_pos: "special x \<Longrightarrow> 0 < c \<Longrightarrow> special (js_mul x (Finite c))"
  by (auto simp: special_def)

lemma apr_inf_volume:
  assumes "ToNumber (volumeUSD p) = PosInfinity"
  shows "special (spec_apr p)"
proof -
  have "special (js_mul (js_div (ToNumber (feeTier p)) (Finite 1000000)) PosInfinity)"
    by (rule special_mul_inf)
  then have "special (js_div (js_mul (js_div (ToNumber (feeTier p)) (Finite 1000000))
      PosInfinity) (ToNumber (spec_liquidity (liquidity p))))"
    using spec_liquidity_positive by (rule special_div_pos)
  then show ?thesis
    unfolding spec_apr_def calculateAPR_def assms by (simp add: special_mul_pos)
qed

text \<open>
  C1: the significance filter returns true on a pool record if and only if its
  \<open>volumeUSD\<close> is a finite number other than zero, its \<open>totalValueLockedUSD\<close> is at
  least 50,000, its \<open>volumeUSD\<close> is at least 1,000, and the APR computed from its fee
  tier, its volume and its liquidity with 1 in place of a liquidity that is not
  positive (\<open>spec_apr\<close>) is at least 0.05, below 200, and not \<open>Infinity\<close>.
\<close>

theorem isPoolSignificant_iff:
  "isPoolSignificant (Pool p) =
     Inr (finite_nonzero (volumeUSD p) \<and>
          js_ge (ToNumber (totalValueLockedUSD p)) (Finite 50000) \<and>
          js_ge (ToNumber (volumeUSD p)) (Finite 1000) \<and>
          js_ge (spec_apr p) (Finite (5 / 100)) \<and>
          js_lt (spec_apr p) (Finite 200) \<and>
          spec_apr p \<noteq> PosInfinity)"
proof (cases "js_ge (ToNumber (volumeUSD p)) (Finite 1000)")
  case False
  then show ?thesis
    by (simp add: isPoolSignificant_Pool thresholds del: isPoolSignificant.simps)
next
  case True
  from truthy_of_ge [OF True] have t: "truthy (volumeUSD p)" by simp
  from True have n: "\<not> isNaN (volumeUSD p)" by (simp add: js_ge_def isNaN_def)
  have code: "isPoolSignificant (Pool p) =
      Inr (js_ge (ToNumber (totalValueLockedUSD p)) (Finite 50000) \<and>
           js_ge (spec_apr p) (Finite (5 / 100)) \<and>
           js_lt (spec_apr p) (Finite 200) \<and>
           spec_apr p \<noteq> PosInfinity)"
    using t n True by (simp add: isPoolSignificant_Pool thresholds del: isPoolSignificant.simps)
  show ?thesis
  proof (cases "ToNumber (volumeUSD p)")
    case (Finite v)
    with True have "finite_nonzero (volumeUSD p)"
      by (auto simp: finite_nonzero_def js_ge_def)
    with code True show ?thesis by simp
  next
    case PosInfinity
    from apr_inf_volume [OF this] have "special (spec_apr p)" .
    then have "\<not> (js_ge (spec_apr p) (Finite (5 / 100)) \<and> js_lt (spec_apr p) (Finite 200) \<and>
        spec_apr p \<noteq> PosInfinity)"
      by (auto simp: special_def js_ge_def)
    with code show ?thesis by auto
  next
    case NegInfinity
    with True show ?thesis by (simp add: js_ge_def)
  next
    case NaN
    with True show ?thesis by (simp add: js_ge_def)
  qed
qed

text \<open>
  The two sides differ without the substitution: at a liquidity of zero the filter
  accepts a pool whose estimate over the liquidity as it stands would be infinite.
\<close>

lemma zero_liquidity_accepted:
  "isPoolSignificant (Pool (good_pool\<lparr>feeTier := Number (Finite 5),
     liquidity := Number (Finite 0), volumeUSD := Number (Finite 1000)\<rparr>)) = Inr True"
  by (simp add: good_pool_def calculateAPR_def js_gt_def isNaN_def js_ge_def thresholds)

lemma zero_liquidity_estimate:
  "calculateAPR (Number (Finite 5)) (Number (Finite 1000)) (Number (Finite 0)) = PosInfinity"
  by (simp add: calculateAPR_def)

text \<open>
  The boundaries of the filter on the example pools: a total value locked of exactly
  50,000 is accepted and one of 49,999.99 is rejected; an APR of exactly 200 is
  rejected and one of 199.9995 is accepted. A pool with string fields is judged by
  the numbers that the runtime converts them to.
\<close>

lemma spec_apr_good_pool: "spec_apr good_pool = Finite (219 / 4)"
  by (simp add: spec_apr_def spec_liquidity_def good_pool_def calculateAPR_def)

lemma spec_apr_hot_pool: "spec_apr hot_pool = Finite 200"
  by (simp add: spec_apr_def spec_liquidity_def hot_pool_def good_pool_def calculateAPR_def)

lemma spec_apr_warm_pool: "spec_apr warm_pool = Finite (399999 / 2000)"
  by (simp add: spec_apr_def spec_liquidity_def warm_pool_def hot_pool_def good_pool_def
      calculateAPR_def)

lemma spec_apr_string_pool: "spec_apr string_pool = Finite (219 / 4)"
  by (simp add: spec_apr_def spec_liquidity_def string_pool_def good_pool_def calculateAPR_def)

lemma significant_good_pool: "isPoolSignificant (Pool good_pool) = Inr True"
  by (simp add: isPoolSignificant_Pool spec_apr_good_pool del: isPoolSignificant.simps)
    (simp add: good_pool_def isNaN_def js_ge_def thresholds)

lemma significant_small_pool: "isPoolSignificant (Pool small_pool) = Inr False"
  by (simp add: isPoolSignificant_Pool del: isPoolSignificant.simps)
    (simp add: small_pool_def good_pool_def isNaN_def js_ge_def thresholds)

lemma significant_hot_pool: "isPoolSignificant (Pool hot_pool) = Inr False"
  by (simp add: isPoolSignificant_Pool spec_apr_hot_pool thresholds
      del: isPoolSignificant.simps)

lemma significant_warm_pool: "isPoolSignificant (Pool warm_pool) = Inr True"
  by (simp add: isPoolSignificant_Pool spec_apr_warm_pool del: isPoolSignificant.simps)
    (simp add: warm_pool_def hot_pool_def good_pool_def isNaN_def js_ge_def thresholds)

lemma significant_string_pool: "isPoolSignificant (Pool string_pool) = Inr True"
  by (simp add: isPoolSignificant_Pool spec_apr_string_pool del: isPoolSignificant.simps)
    (simp add: string_pool_def good_pool_def isNaN_def js_ge_def thresholds)

lemma pool_ids:
  "pool_id good_pool = ''0x01''" "pool_id small_pool = ''0x02''" "pool_id hot_pool = ''0x03''"
  by (simp_all add: good_pool_def small_pool_def hot_pool_def)

section \<open>The call of the filter from the fetcher and from the orchestrator\<close>

text \<open>
  No binding of the module has the name \<open>isSignificantPool\<close>, so the call raises on
  every argument.
\<close>

lemma isSignificantPool_not_in_scope: "''isSignificantPool'' \<notin> set module_scope"
  by (simp add: module_scope_def)

lemma isSignificantPool_raises:
  "isSignificantPool pool = Inl (ReferenceError ''isSignificantPool is not defined'')"
  by (simp add: isSignificantPool_def pool_functions_def)

text \<open>
  C9: the significance filter applied to a \<open>null\<close> cache entry raises a TypeError (it
  does not return false), and the filter-on-load step of the cache path raises on a
  cached array that holds a \<open>null\<close>, both as the program calls the filter and with
  \<open>isPoolSignificant\<close> in its place.
\<close>

theorem isPoolSignificant_null_raises:
  "isPoolSignificant NullEntry =
     Inl (TypeError ''Cannot read properties of null (reading totalValueLockedUSD)'') \<and>
   filter_on_load isSignificantPool [NullEntry] =
     Inl (ReferenceError ''isSignificantPool is not defined'') \<and>
   filter_on_load isPoolSignificant [Pool good_pool, NullEntry] =
     Inl (TypeError ''Cannot read properties of null (reading totalValueLockedUSD)'')"
  by (simp add: filter_on_load_def isSignificantPool_raises significant_good_pool
      del: isPoolSignificant.simps(2))

text \<open>
  C3: on a single page of three pools of which exactly one passes the filter,
  \<open>fetchAllPools\<close> as the program runs it returns the empty array: the call of
  \<open>isSignificantPool\<close> on the first pool raises, and the \<open>catch\<close> clause returns what
  was collected.
\<close>

theorem fetchAllPools_one_page_empty:
  "fetchAllPools isSignificantPool one_page LIMIT = Inr []"
  by (simp add: fetchAllPools_def while_loop.simps iteration_def one_page_def initial_state_def
      LIMIT_def isSignificantPool_raises Let_def)

text \<open>With \<open>isPoolSignificant\<close> bound to the name, the same page yields the one pool.\<close>

lemma fetchAllPools_one_page_intended:
  "fetchAllPools isPoolSignificant one_page LIMIT = Inr [Pool good_pool]"
  by (simp add: fetchAllPools_def while_loop.simps iteration_def one_page_def initial_state_def
      LIMIT_def batchSize_def significant_good_pool significant_small_pool significant_hot_pool Let_def
      pool_ids del: isPoolSignificant.simps)

section \<open>Properties of the pool fetcher\<close>

lemma replicate_numeral_Cons: "replicate (numeral k) x = x # replicate (pred_numeral k) x"
  by (simp add: numeral_eq_Suc)

lemma fetchAllPools_returns:
  "fetchAllPools f svc limit =
     Inr (significantPools (snd (snd (while_loop f svc limit 0 initial_state))))"
  by (simp add: fetchAllPools_def split: prod.splits option.splits)





text \<open>
  An exception inside a page: the pools collected from the elements before it are
  returned.
\<close>

lemma fetchAllPools_broken_page:
  "fetchAllPools isPoolSignificant broken_page LIMIT = Inr [Pool good_pool]"
  by (simp add: fetchAllPools_def while_loop.simps iteration_def broken_page_def
      initial_state_def LIMIT_def Let_def significant_good_pool pool_ids
      del: isPoolSignificant.simps)

text \<open>
  C4: on two pages that hold the same significant pool, \<open>fetchAllPools\<close> as the
  program runs it returns the empty array, so the output has no entry for the
  identifier of that pool, where the spec has exactly one: the call of \<open>isSignificantPool\<close> raises on the first pool
  of the first page.
\<close>

theorem fetchAllPools_two_pages_empty:
  "fetchAllPools isSignificantPool two_pages LIMIT = Inr []"
  by (simp add: fetchAllPools_def while_loop.simps iteration_def two_pages_def
      initial_state_def LIMIT_def isSignificantPool_raises Let_def replicate_numeral_Cons)

text \<open>
  With \<open>isPoolSignificant\<close> bound to the name, the two pages yield the pool once, and
  for every filter and every service the output holds no identifier twice.
\<close>

lemma fetchAllPools_two_pages_intended:
  "fetchAllPools isPoolSignificant two_pages LIMIT = Inr [Pool good_pool]"
  by (simp add: fetchAllPools_def while_loop.simps iteration_def two_pages_def
      initial_state_def LIMIT_def batchSize_def significant_good_pool significant_small_pool
      significant_hot_pool Let_def pool_ids replicate_numeral_Cons
      del: isPoolSignificant.simps)

lemma ids_snoc: "ids (xs @ [Pool p]) = ids xs @ [pool_id p]"
  by (induction xs rule: ids.induct) simp_all

lemma for_pools_Pool:
  "f (Pool p) = Inr b \<Longrightarrow>
   for_pools f limit (Pool p # ps) s =
     (let s3 = (if b \<and> pool_id p \<notin> set (significantPoolsSet s)
                then s\<lparr>allPools := allPools s @ [Pool p], lastPoolId := pool_id p,
                        significantPoolsSet := significantPoolsSet s @ [pool_id p],
                        significantPools := significantPools s @ [Pool p]\<rparr>
                else s\<lparr>allPools := allPools s @ [Pool p], lastPoolId := pool_id p\<rparr>)
      in if limit \<le> length (allPools s3) then (None, s3\<lparr>fetchMore := False\<rparr>)
         else for_pools f limit ps s3)"
  by (simp add: Let_def)

lemma for_pools_dedup_inv:
  "dedup_inv s \<Longrightarrow> for_pools f limit ps s = (out, s') \<Longrightarrow> dedup_inv s'"
proof (induction ps arbitrary: s)
  case Nil
  then show ?case by simp
next
  case (Cons a ps)
  show ?case
  proof (cases a)
    case NullEntry
    with Cons.prems show ?thesis by (auto simp: Let_def dedup_inv_def)
  next
    case (Pool p)
    show ?thesis
    proof (cases "f (Pool p)")
      case (Inl e)
      with Pool Cons.prems show ?thesis by (auto simp: Let_def dedup_inv_def)
    next
      case (Inr b)
      define s3 where "s3 =
        (if b \<and> pool_id p \<notin> set (significantPoolsSet s)
         then s\<lparr>allPools := allPools s @ [Pool p], lastPoolId := pool_id p,
                 significantPoolsSet := significantPoolsSet s @ [pool_id p],
                 significantPools := significantPools s @ [Pool p]\<rparr>
         else s\<lparr>allPools := allPools s @ [Pool p], lastPoolId := pool_id p\<rparr>)"
      have inv3: "dedup_inv s3"
        using Cons.prems(1) by (simp add: s3_def dedup_inv_def ids_snoc)
      have "for_pools f limit (a # ps) s =
          (if limit \<le> length (allPools s3) then (None, s3\<lparr>fetchMore := False\<rparr>)
           else for_pools f limit ps s3)"
        unfolding Pool s3_def using for_pools_Pool [where f = f and p = p and b = b, OF Inr]
        by (simp add: Let_def)
      with Cons.prems(2)
      have "s' = s3\<lparr>fetchMore := False\<rparr> \<or> for_pools f limit ps s3 = (out, s')"
        by (simp split: if_splits)
      then show ?thesis
      proof
        assume "s' = s3\<lparr>fetchMore := False\<rparr>"
        with inv3 show ?thesis by (simp add: dedup_inv_def)
      next
        assume "for_pools f limit ps s3 = (out, s')"
        from Cons.IH [OF inv3 this] show ?thesis .
      qed
    qed
  qed
qed

lemma iteration_dedup_inv:
  assumes inv: "dedup_inv s" and it: "iteration f svc limit n s = (out, s')"
  shows "dedup_inv s'"
proof (cases "svc n (getPoolsQuery batchSize (lastPoolId s) liquidityThreshold volumeThreshold)")
  case (Inl e)
  with it inv show ?thesis by (simp add: iteration_def Let_def)
next
  case (Inr ps)
  obtain o2 t where fp: "for_pools f limit ps s = (o2, t)"
    by (cases "for_pools f limit ps s")
  from for_pools_dedup_inv [OF inv fp] have t: "dedup_inv t" .
  from it Inr fp have "s' = t \<or> s' = t\<lparr>fetchMore := False\<rparr>"
    by (cases o2) (auto simp: iteration_def Let_def split: if_splits)
  with t show ?thesis by (auto simp: dedup_inv_def)
qed

lemma while_loop_invariant:
  "(\<And>n s out s'. I s \<Longrightarrow> iteration f svc limit n s = (out, s') \<Longrightarrow> I s') \<Longrightarrow>
   I s \<Longrightarrow> while_loop f svc limit n s = (out, m, s') \<Longrightarrow> I s'"
proof (induction f svc limit n s rule: while_loop.induct)
  case (1 f svc limit n s)
  show ?case
  proof (cases "fetchMore s \<and> length (allPools s) < limit")
    case False
    with "1.prems" show ?thesis by (simp add: while_loop.simps)
  next
    case True
    obtain o1 s1 where it: "iteration f svc limit n s = (o1, s1)"
      by (cases "iteration f svc limit n s")
    from "1.prems"(1) [OF "1.prems"(2) it] have inv1: "I s1" .
    show ?thesis
    proof (cases o1)
      case None
      with True it "1.prems"(3) have "while_loop f svc limit (Suc n) s1 = (out, m, s')"
        by (simp add: while_loop.simps)
      from "1.IH" [OF True it [symmetric] None "1.prems"(1) inv1 this] show ?thesis
        by simp
    next
      case (Some e)
      with True it "1.prems"(3) have "s' = s1"
        by (simp add: while_loop.simps)
      with inv1 show ?thesis by simp
    qed
  qed
qed

lemma fetchAllPools_distinct:
  assumes r: "fetchAllPools f svc limit = Inr pools"
  shows "distinct (ids pools)"
proof -
  obtain out m s' where w: "while_loop f svc limit 0 initial_state = (out, m, s')"
    by (cases "while_loop f svc limit 0 initial_state")
  have "dedup_inv initial_state"
    by (simp add: dedup_inv_def initial_state_def)
  from iteration_dedup_inv this w have "dedup_inv s'"
    by (rule while_loop_invariant [where I = dedup_inv])
  moreover from r w have "pools = significantPools s'"
    by (cases out) (simp_all add: fetchAllPools_def)
  ultimately show ?thesis by (simp add: dedup_inv_def)
qed

text \<open>
  As the program runs it, the pass collects nothing, whatever the service answers:
  the call of \<open>isSignificantPool\<close> raises before a pool can be added.
\<close>

lemma for_pools_unbound:
  "significantPools s = [] \<Longrightarrow> for_pools isSignificantPool limit ps s = (out, s') \<Longrightarrow>
   significantPools s' = []"
  by (cases ps) (auto simp: Let_def isSignificantPool_raises split: entry.splits)

lemma iteration_unbound:
  assumes inv: "significantPools s = []"
    and it: "iteration isSignificantPool svc limit n s = (out, s')"
  shows "significantPools s' = []"
proof (cases "svc n (getPoolsQuery batchSize (lastPoolId s) liquidityThreshold volumeThreshold)")
  case (Inl e)
  with it inv show ?thesis by (simp add: iteration_def Let_def)
next
  case (Inr ps)
  obtain o2 t where fp: "for_pools isSignificantPool limit ps s = (o2, t)"
    by (cases "for_pools isSignificantPool limit ps s")
  from for_pools_unbound [OF inv fp] have t: "significantPools t = []" .
  from it Inr fp have "s' = t \<or> s' = t\<lparr>fetchMore := False\<rparr>"
    by (cases o2) (auto simp: iteration_def Let_def split: if_splits)
  with t show ?thesis by auto
qed

lemma fetchAllPools_always_empty: "fetchAllPools isSignificantPool svc limit = Inr []"
proof -
  obtain out m s' where w: "while_loop isSignificantPool svc limit 0 initial_state = (out, m, s')"
    by (cases "while_loop isSignificantPool svc limit 0 initial_state")
  have "significantPools initial_state = []"
    by (simp add: initial_state_def)
  from iteration_unbound this w have "significantPools s' = []"
    by (rule while_loop_invariant [where I = "\<lambda>s. significantPools s = []"])
  with w show ?thesis
    by (cases out) (simp_all add: fetchAllPools_def)
qed

section \<open>Properties of the startup check\<close>

lemma env_not_in_scope: "''env'' \<notin> set module_scope"
  by (simp add: module_scope_def)

lemma startup_check_always_raises:
  "startup_check process_env = Inl (ReferenceError ''env is not defined'')"
  by (simp add: startup_check_def for_in_keys_def req_env_def env_not_in_scope upt_rec)

text \<open>
  C6: with all three required variables set, the startup check raises: a
  ReferenceError for the identifier \<open>env\<close> as module code, and the error for a missing
  variable named \<open>0\<close> if the same loop ran as sloppy code.
\<close>

theorem startup_check_full_env_raises:
  "startup_check full_env = Inl (ReferenceError ''env is not defined'') \<and>
   check_env False full_env (for_in_keys req_env) =
     Inl (Error ''Missing required environment variable: 0'')"
  by (simp add: startup_check_always_raises)
    (simp add: for_in_keys_def req_env_def full_env_def upt_rec digit_def)

section \<open>Properties of the cache store\<close>

text \<open>
  C7: \<open>loadFromCache\<close> never raises. It returns \<open>null\<close>, which is not the empty array,
  when the cache file does not exist, when reading it raises (the path is a
  directory) and when its text does not parse; when the file exists and parses it
  returns the parsed contents.
\<close>

theorem loadFromCache_cases:
  "loadFromCache fs cache_file =
     Inr (case fs cache_file of
            None \<Rightarrow> NullValue
          | Some Directory \<Rightarrow> NullValue
          | Some (File (Malformed t)) \<Rightarrow> NullValue
          | Some (File (Json v)) \<Rightarrow> v) \<and>
   NullValue \<noteq> Entries []"
  by (simp add: loadFromCache_def existsSync_def readFileSync_def
      split: option.splits node.splits content.splits)

lemma json_number_representable: "representable v \<Longrightarrow> json_number v = v"
  by (cases v rule: representable.cases) simp_all

lemma json_entry_representable: "representable_entry e \<Longrightarrow> json_entry e = e"
proof (cases e)
  case NullEntry
  then show ?thesis by simp
next
  case (Pool p)
  assume "representable_entry e"
  with Pool have rp: "representable_pool p" by simp
  have tok: "json_token (token0 p) = token0 p" "json_token (token1 p) = token1 p"
    using rp by (simp_all add: json_token_def representable_pool_def json_number_representable)
  have enr: "map_option json_enrichment (enriched p) = enriched p"
    using rp
    by (cases "enriched p")
      (simp_all add: representable_pool_def representable_enrichment_def json_enrichment_def
        json_number_representable)
  have "json_pool p = p"
    using rp by (simp add: json_pool_def tok enr representable_pool_def json_number_representable)
  with Pool show ?thesis by simp
qed

lemma map_json_entry_representable:
  "list_all representable_entry pools \<Longrightarrow> map json_entry pools = pools"
  by (induction pools) (simp_all add: json_entry_representable)

text \<open>
  C8: when the path of the cache file can be written (it is not a directory) and every
  numeric field of the records is a finite number, a string or \<open>null\<close>, \<open>saveToCache\<close> replaces
  the text of the cache file by the text of the list, whatever the file held before,
  and leaves every other path as it was; \<open>loadFromCache\<close> then returns the same list,
  record for record and field for field.
\<close>

theorem cache_round_trip:
  "fs cache_file \<noteq> Some Directory \<Longrightarrow> list_all representable_entry pools \<Longrightarrow>
   saveToCache fs cache_file pools = Inr (fs(cache_file \<mapsto> File (JSON_stringify pools))) \<and>
   loadFromCache (fs(cache_file \<mapsto> File (JSON_stringify pools))) cache_file =
     Inr (Entries pools)"
proof -
  assume nd: "fs cache_file \<noteq> Some Directory" and rep: "list_all representable_entry pools"
  have "writeFileSync fs cache_file (JSON_stringify pools) =
      Inr (fs(cache_file \<mapsto> File (JSON_stringify pools)))"
    using nd by (auto simp: writeFileSync_def split: option.splits node.splits)
  then have save: "saveToCache fs cache_file pools =
      Inr (fs(cache_file \<mapsto> File (JSON_stringify pools)))"
    by (simp add: saveToCache_def)
  have "loadFromCache (fs(cache_file \<mapsto> File (JSON_stringify pools))) cache_file =
      Inr (Entries (map json_entry pools))"
    by (simp add: loadFromCache_def existsSync_def readFileSync_def JSON_stringify_def)
  with map_json_entry_representable [OF rep] save show ?thesis by simp
qed

lemma representable_examples:
  "representable_entry (Pool good_pool)" "representable_entry (Pool priced_pool)"
  by (simp_all add: representable_pool_def representable_enrichment_def priced_pool_def
      good_pool_def usdc_def weth_def)

theorem cache_round_trip_witness:
  "saveToCache old_cache ''cache.json'' [Pool good_pool, NullEntry, Pool priced_pool] =
     Inr (old_cache(''cache.json'' \<mapsto>
       File (JSON_stringify [Pool good_pool, NullEntry, Pool priced_pool]))) \<and>
   loadFromCache
     (old_cache(''cache.json'' \<mapsto>
       File (JSON_stringify [Pool good_pool, NullEntry, Pool priced_pool]))) ''cache.json'' =
     Inr (Entries [Pool good_pool, NullEntry, Pool priced_pool])"
proof -
  have nd: "old_cache ''cache.json'' \<noteq> Some Directory"
    by (simp add: old_cache_def)
  have rep: "list_all representable_entry [Pool good_pool, NullEntry, Pool priced_pool]"
    by (simp add: representable_examples del: representable_entry.simps(2))
  from cache_round_trip [of old_cache "''cache.json''", OF nd rep] show ?thesis .
qed

text \<open>
  Outside these conditions: a write that raises leaves the old cache in place, and a
  number that is not finite comes back as \<open>null\<close>.
\<close>

lemma saveToCache_directory:
  "saveToCache [''cache.json'' \<mapsto> Directory] ''cache.json'' pools =
     Inr [''cache.json'' \<mapsto> Directory]"
  by (simp add: saveToCache_def writeFileSync_def)

lemma json_number_not_finite:
  "json_number (Number NaN) = Null" "json_number (Number PosInfinity) = Null"
  "json_number (Number NegInfinity) = Null"
  by simp_all

section \<open>Properties of the number formatter\<close>

text \<open>
  C10: \<open>formatBigNumber\<close> applied to the number 0 returns the string N/A, whatever
  the number of decimals (and whatever \<open>Math.log10\<close> computes).
\<close>

theorem formatBigNumber_zero: "formatBigNumber Math_log10 (Finite 0) decimals' = Inr ''N/A''"
  by (simp add: formatBigNumber_def)

theorem formatBigNumber_zero_witness:
  "formatBigNumber (\<lambda>x. NegInfinity) (Finite 0) 2 = Inr ''N/A''"
  using formatBigNumber_zero [of "\<lambda>x. NegInfinity" 2] by simp

lemma formatBigNumber_NaN: "formatBigNumber Math_log10 NaN decimals' = Inr ''N/A''"
  by (simp add: formatBigNumber_def)

text \<open>
  The examples of the spec: 999 prints as 999.00 and 1,500,000 as 1.50M, for every
  \<open>Math.log10\<close> that puts the logarithm of 999 in \<open>[0, 3)\<close> and that of 1,500,000 in
  \<open>[6, 9)\<close>. Where \<open>Math.log10\<close> rounds the logarithm of 999,999,999,999,999 up to
  15, the number prints as 1.00P.
\<close>

lemma floor_rat_numeral: "\<lfloor>numeral a / numeral b :: rat\<rfloor> = numeral a div numeral b"
  using floor_divide_of_int_eq [of "numeral a" "numeral b", where ?'a = rat] by simp

lemma ToInt32_floor:
  assumes "0 \<le> q" and "\<lfloor>q\<rfloor> = k" and "k < 2 ^ 31"
  shows "ToInt32 (Finite q) = k"
proof -
  from assms(1,2) have "0 \<le> k" by auto
  with assms(3) have "k mod 2 ^ 32 = k" by simp
  with assms show ?thesis by (simp add: Let_def)
qed

lemma decimal_99900: "decimal 99900 = ''99900''"
  by (simp add: digit_def)

lemma decimal_150: "decimal 150 = ''150''"
  by (simp add: digit_def)

lemma decimal_100: "decimal 100 = ''100''"
  by (simp add: digit_def)

lemma fixed_digits_999: "fixed_digits 999 2 = ''999.00''"
  by (simp add: fixed_digits_def Let_def floor_rat_numeral decimal_99900 del: decimal.simps)

lemma fixed_digits_three_halves: "fixed_digits (3 / 2) 2 = ''1.50''"
  by (simp add: fixed_digits_def Let_def floor_rat_numeral decimal_150 del: decimal.simps)

lemma fixed_digits_below_one:
  "fixed_digits (999999999999999 / 1000000000000000) 2 = ''1.00''"
  by (simp add: fixed_digits_def Let_def floor_rat_numeral decimal_100 del: decimal.simps)

lemma formatBigNumber_999:
  assumes "Math_log10 (Finite 999) = Finite l" and "0 \<le> l" and "l < 3"
  shows "formatBigNumber Math_log10 (Finite 999) 2 = Inr ''999.00''"
proof -
  from assms(2,3) have "\<lfloor>l / 3\<rfloor> = 0" by (simp add: floor_eq_iff)
  with assms(2) have "ToInt32 (Finite (l / 3)) = 0"
    by (intro ToInt32_floor) simp_all
  with assms(1) show ?thesis
    by (simp add: formatBigNumber_def isNaN_def fixed_digits_999 Let_def del: ToInt32.simps)
qed

lemma formatBigNumber_1500000:
  assumes "Math_log10 (Finite 1500000) = Finite l" and "6 \<le> l" and "l < 9"
  shows "formatBigNumber Math_log10 (Finite 1500000) 2 = Inr ''1.50M''"
proof -
  from assms(2,3) have "\<lfloor>l / 3\<rfloor> = 2" by (simp add: floor_eq_iff)
  with assms(2) have "ToInt32 (Finite (l / 3)) = 2"
    by (intro ToInt32_floor) simp_all
  with assms(1) show ?thesis
    by (simp add: formatBigNumber_def isNaN_def fixed_digits_three_halves Let_def suffixes_def
        del: ToInt32.simps)
qed

lemma formatBigNumber_rounded_logarithm:
  assumes "Math_log10 (Finite 999999999999999) = Finite 15"
  shows "formatBigNumber Math_log10 (Finite 999999999999999) 2 = Inr ''1.00P''"
proof -
  have "ToInt32 (Finite (15 / 3)) = 5"
    by (intro ToInt32_floor) simp_all
  then have "ToInt32 (Finite 5) = 5" by simp
  with assms show ?thesis
    by (simp add: formatBigNumber_def isNaN_def fixed_digits_below_one Let_def suffixes_def
        del: ToInt32.simps)
qed

end
